theory Spec2Isabelle
  imports Complex_Main "HOL-Library.Word" "HOL-Library.AList"
begin

section \<open>Client side: the instruction builders of token/ts/src/instructions\<close>

subsection \<open>Values that cross the JavaScript boundary\<close>

type_synonym byte = "8 word"

text \<open>A \<^verbatim>\<open>Buffer\<close> is a mutable byte array; the model passes it along and returns the
  updated one.\<close>

type_synonym Buffer = "byte list"

text \<open>A \<^verbatim>\<open>PublicKey\<close> wraps 32 bytes and is only ever compared for equality here.\<close>

type_synonym PublicKey = "256 word"

text \<open>The exceptions the builders can raise. \<open>BackendDependent\<close> marks the inputs on which
  the byte conversion of \<^verbatim>\<open>bigint-buffer\<close> gives a result that depends on the backend that
  is loaded (native or pure JavaScript): the model computes no bytes there.\<close>

datatype js_error = RangeError | TypeError | BackendDependent

text \<open>A JavaScript \<^verbatim>\<open>number\<close> is carried by the exact value it denotes (every finite double
  is a rational), or is one of the three non-finite doubles.\<close>

datatype js_number = Finite rat | NaN | Infinity | NegInfinity

text \<open>\<^verbatim>\<open>number | bigint\<close>, the type of the \<^verbatim>\<open>amount\<close> argument and of the field values handed
  to a layout.\<close>

datatype js_value = JNumber js_number | JBigint int

text \<open>\<^verbatim>\<open>BigInt(x)\<close>: the identity on a bigint; on a number it raises a RangeError unless the
  number is a finite integer.\<close>

fun js_BigInt :: "js_value \<Rightarrow> js_error + int" where
  "js_BigInt (JBigint v) = Inr v"
| "js_BigInt (JNumber (Finite q)) = (if of_int \<lfloor>q\<rfloor> = q then Inr \<lfloor>q\<rfloor> else Inl RangeError)"
| "js_BigInt (JNumber _) = Inl RangeError"

record AccountMeta =
  pubkey :: PublicKey
  isSigner :: bool
  isWritable :: bool

record Signer =
  publicKey :: PublicKey
  secretKey :: Buffer

record TransactionInstruction =
  keys :: "AccountMeta list"
  programId :: PublicKey
  data :: Buffer

text \<open>Modelled from the spec: the enum \<^verbatim>\<open>TokenInstruction\<close> of instructions/types.ts, which is
  not among the sources. It has one member per instruction kind of the instruction table
  (section 4.3); the builders below use \<^verbatim>\<open>Burn\<close>, \<^verbatim>\<open>FreezeAccount\<close>, \<^verbatim>\<open>ThawAccount\<close> and
  \<^verbatim>\<open>Revoke\<close>. The numeric value of a member is not given anywhere, so it is a parameter
  (\<open>TokenInstruction_value\<close> below).\<close>

datatype TokenInstruction =
    InitializeMint | InitializeAccount | InitializeMultisig | Transfer | Approve | Revoke
  | SetAuthority | MintTo | Burn | CloseAccount | FreezeAccount | ThawAccount

text \<open>What the builders import from files that are not among the sources:
  \<^verbatim>\<open>TOKEN_PROGRAM_ID\<close> (../constants), the numeric values of \<^verbatim>\<open>TokenInstruction\<close> (./types)
  and the helper \<^verbatim>\<open>addSigners\<close> (./internal). They are parameters of every builder.\<close>

record Imports =
  TOKEN_PROGRAM_ID :: PublicKey
  TokenInstruction_value :: "TokenInstruction \<Rightarrow> nat"
  addSigners :: "AccountMeta list \<Rightarrow> PublicKey \<Rightarrow> Signer list \<Rightarrow> AccountMeta list"

subsection \<open>The layouts of @solana/buffer-layout used by the builders\<close>

text \<open>\<^verbatim>\<open>u8(property)\<close> and \<^verbatim>\<open>u64(property)\<close>; a \<^verbatim>\<open>struct\<close> is the list of its fields.\<close>

datatype Layout = u8 string | u64 string

fun span :: "Layout \<Rightarrow> nat" where
  "span (u8 _) = 1"
| "span (u64 _) = 8"

fun property :: "Layout \<Rightarrow> string" where
  "property (u8 p) = p"
| "property (u64 p) = p"

type_synonym Structure = "Layout list"

definition Structure_span :: "Structure \<Rightarrow> nat" where
  "Structure_span fds = sum_list (map span fds)"

text \<open>\<^verbatim>\<open>Buffer.alloc(n)\<close>: n zero bytes.\<close>

definition Buffer_alloc :: "nat \<Rightarrow> Buffer" where
  "Buffer_alloc n = replicate n 0"

text \<open>Overwriting the bytes of \<open>b\<close> from \<open>offset\<close> on; the callers check the bounds.\<close>

definition Buffer_set :: "Buffer \<Rightarrow> nat \<Rightarrow> byte list \<Rightarrow> Buffer" where
  "Buffer_set b offset bs = take offset b @ bs @ drop (offset + length bs) b"

text \<open>\<^verbatim>\<open>toBufferLE(v, width)\<close> and \<^verbatim>\<open>toBigIntLE(buf)\<close> of bigint-buffer, for
  \<open>0 \<le> v < 256 ^ width\<close>: the little-endian bytes of \<open>v\<close>, and the number they denote.\<close>

fun toBufferLE :: "int \<Rightarrow> nat \<Rightarrow> byte list" where
  "toBufferLE v 0 = []"
| "toBufferLE v (Suc width) = word_of_int (v mod 256) # toBufferLE (v div 256) width"

fun toBigIntLE :: "byte list \<Rightarrow> int" where
  "toBigIntLE [] = 0"
| "toBigIntLE (b # bs) = uint b + 256 * toBigIntLE bs"

text \<open>\<^verbatim>\<open>UInt.encode\<close> for one byte, that is \<^verbatim>\<open>writeUIntLE(value, offset, 1)\<close>: a bigint cannot be
  converted by unary plus (TypeError); a value outside 0..255 and an offset outside the
  buffer are RangeErrors; a fraction is truncated and NaN is stored as 0.\<close>

fun u8_encode :: "js_value \<Rightarrow> Buffer \<Rightarrow> nat \<Rightarrow> js_error + Buffer" where
  "u8_encode (JBigint _) b offset = Inl TypeError"
| "u8_encode (JNumber (Finite q)) b offset =
     (if q < 0 \<or> 255 < q then Inl RangeError
      else if length b \<le> offset then Inl RangeError
      else Inr (Buffer_set b offset [word_of_int \<lfloor>q\<rfloor>]))"
| "u8_encode (JNumber NaN) b offset =
     (if length b \<le> offset then Inl RangeError else Inr (Buffer_set b offset [0]))"
| "u8_encode (JNumber _) b offset = Inl RangeError"

text \<open>The \<^verbatim>\<open>u64\<close> layout of @solana/buffer-layout-utils: \<^verbatim>\<open>toBufferLE(value, 8)\<close>, then the
  eight bytes are written as a blob, which raises a RangeError when they overrun the buffer.
  For a number, and for a bigint outside \<open>0 \<le> v < 2 ^ 64\<close>, the bytes depend on the
  backend.\<close>

fun u64_encode :: "js_value \<Rightarrow> Buffer \<Rightarrow> nat \<Rightarrow> js_error + Buffer" where
  "u64_encode (JNumber _) b offset = Inl BackendDependent"
| "u64_encode (JBigint v) b offset =
     (if v < 0 \<or> 2 ^ 64 \<le> v then Inl BackendDependent
      else if length b < offset + 8 then Inl RangeError
      else Inr (Buffer_set b offset (toBufferLE v 8)))"

fun Layout_encode :: "Layout \<Rightarrow> js_value \<Rightarrow> Buffer \<Rightarrow> nat \<Rightarrow> js_error + Buffer" where
  "Layout_encode (u8 _) v b offset = u8_encode v b offset"
| "Layout_encode (u64 _) v b offset = u64_encode v b offset"

text \<open>\<^verbatim>\<open>Structure.encode(src, b, offset)\<close>: the fields in order, each at the offset after the
  one before it; a field whose property the source object lacks is skipped and leaves its
  bytes as they are. The source object is the list of its properties.\<close>

fun Structure_encode ::
  "Structure \<Rightarrow> (string \<times> js_value) list \<Rightarrow> Buffer \<Rightarrow> nat \<Rightarrow> js_error + Buffer" where
  "Structure_encode [] src b offset = Inr b"
| "Structure_encode (fd # fds) src b offset =
     (case map_of src (property fd) of
        None \<Rightarrow> Structure_encode fds src b (offset + span fd)
      | Some fv \<Rightarrow>
          (case Layout_encode fd fv b offset of
             Inl e \<Rightarrow> Inl e
           | Inr b' \<Rightarrow> Structure_encode fds src b' (offset + span fd)))"

text \<open>An enum member as the number it stands for.\<close>

definition enum_number :: "Imports \<Rightarrow> TokenInstruction \<Rightarrow> js_value" where
  "enum_number imp i = JNumber (Finite (of_nat (TokenInstruction_value imp i)))"

subsection \<open>burn.ts\<close>

definition burn_dataLayout :: Structure where
  "burn_dataLayout = [u8 ''instruction'', u64 ''amount'']"

text \<open>\<^verbatim>\<open>createBurnInstruction(account, mint, owner, amount, multiSigners = [],
  programId = TOKEN_PROGRAM_ID)\<close>. An argument left out is \<open>None\<close>. As in the source, the key
  list is built before the amount is converted and encoded.\<close>

definition createBurnInstruction ::
  "Imports \<Rightarrow> PublicKey \<Rightarrow> PublicKey \<Rightarrow> PublicKey \<Rightarrow> js_value \<Rightarrow> Signer list option
     \<Rightarrow> PublicKey option \<Rightarrow> js_error + TransactionInstruction" where
  "createBurnInstruction imp account mint owner amount multiSigners programId' =
     (let multiSigners' = (case multiSigners of None \<Rightarrow> [] | Some ms \<Rightarrow> ms);
          programId'' = (case programId' of None \<Rightarrow> TOKEN_PROGRAM_ID imp | Some p \<Rightarrow> p);
          keys' = addSigners imp
                    [\<lparr>pubkey = account, isSigner = False, isWritable = True\<rparr>,
                     \<lparr>pubkey = mint, isSigner = False, isWritable = True\<rparr>]
                    owner multiSigners';
          data' = Buffer_alloc (Structure_span burn_dataLayout)
      in case js_BigInt amount of
           Inl e \<Rightarrow> Inl e
         | Inr a \<Rightarrow>
             (case Structure_encode burn_dataLayout
                     [(''instruction'', enum_number imp TokenInstruction.Burn), (''amount'', JBigint a)] data' 0 of
                Inl e \<Rightarrow> Inl e
              | Inr d \<Rightarrow> Inr \<lparr>keys = keys', programId = programId'', data = d\<rparr>))"

subsection \<open>The builders of the FreezeAccount, ThawAccount and Revoke instructions\<close>

text \<open>Each of the three source files has a \<^verbatim>\<open>dataLayout\<close> of its own, a struct of the one
  field \<^verbatim>\<open>u8('instruction')\<close>.\<close>

definition freezeAccount_dataLayout :: Structure where
  "freezeAccount_dataLayout = [u8 ''instruction'']"

definition createFreezeAccountInstruction ::
  "Imports \<Rightarrow> PublicKey \<Rightarrow> PublicKey \<Rightarrow> PublicKey \<Rightarrow> Signer list option
     \<Rightarrow> PublicKey option \<Rightarrow> js_error + TransactionInstruction" where
  "createFreezeAccountInstruction imp account mint authority multiSigners programId' =
     (let multiSigners' = (case multiSigners of None \<Rightarrow> [] | Some ms \<Rightarrow> ms);
          programId'' = (case programId' of None \<Rightarrow> TOKEN_PROGRAM_ID imp | Some p \<Rightarrow> p);
          keys' = addSigners imp
                    [\<lparr>pubkey = account, isSigner = False, isWritable = True\<rparr>,
                     \<lparr>pubkey = mint, isSigner = False, isWritable = False\<rparr>]
                    authority multiSigners';
          data' = Buffer_alloc (Structure_span freezeAccount_dataLayout)
      in case Structure_encode freezeAccount_dataLayout
                [(''instruction'', enum_number imp TokenInstruction.FreezeAccount)] data' 0 of
           Inl e \<Rightarrow> Inl e
         | Inr d \<Rightarrow> Inr \<lparr>keys = keys', programId = programId'', data = d\<rparr>)"

definition thawAccount_dataLayout :: Structure where
  "thawAccount_dataLayout = [u8 ''instruction'']"

definition createThawAccountInstruction ::
  "Imports \<Rightarrow> PublicKey \<Rightarrow> PublicKey \<Rightarrow> PublicKey \<Rightarrow> Signer list option
     \<Rightarrow> PublicKey option \<Rightarrow> js_error + TransactionInstruction" where
  "createThawAccountInstruction imp account mint authority multiSigners programId' =
     (let multiSigners' = (case multiSigners of None \<Rightarrow> [] | Some ms \<Rightarrow> ms);
          programId'' = (case programId' of None \<Rightarrow> TOKEN_PROGRAM_ID imp | Some p \<Rightarrow> p);
          keys' = addSigners imp
                    [\<lparr>pubkey = account, isSigner = False, isWritable = True\<rparr>,
                     \<lparr>pubkey = mint, isSigner = False, isWritable = False\<rparr>]
                    authority multiSigners';
          data' = Buffer_alloc (Structure_span thawAccount_dataLayout)
      in case Structure_encode thawAccount_dataLayout
                [(''instruction'', enum_number imp TokenInstruction.ThawAccount)] data' 0 of
           Inl e \<Rightarrow> Inl e
         | Inr d \<Rightarrow> Inr \<lparr>keys = keys', programId = programId'', data = d\<rparr>)"

definition revoke_dataLayout :: Structure where
  "revoke_dataLayout = [u8 ''instruction'']"

definition createRevokeInstruction ::
  "Imports \<Rightarrow> PublicKey \<Rightarrow> PublicKey \<Rightarrow> Signer list option \<Rightarrow> PublicKey option
     \<Rightarrow> js_error + TransactionInstruction" where
  "createRevokeInstruction imp account owner multiSigners programId' =
     (let multiSigners' = (case multiSigners of None \<Rightarrow> [] | Some ms \<Rightarrow> ms);
          programId'' = (case programId' of None \<Rightarrow> TOKEN_PROGRAM_ID imp | Some p \<Rightarrow> p);
          keys' = addSigners imp
                    [\<lparr>pubkey = account, isSigner = False, isWritable = True\<rparr>]
                    owner multiSigners';
          data' = Buffer_alloc (Structure_span revoke_dataLayout)
      in case Structure_encode revoke_dataLayout
                [(''instruction'', enum_number imp TokenInstruction.Revoke)] data' 0 of
           Inl e \<Rightarrow> Inl e
         | Inr d \<Rightarrow> Inr \<lparr>keys = keys', programId = programId'', data = d\<rparr>)"

subsection \<open>The module declaration of @solana/spl-token\<close>

text \<open>\<^verbatim>\<open>MultisigInfo\<close> as the declaration file gives it: the two counts, the flag and eleven
  signer fields. The fields \<^verbatim>\<open>m\<close> and \<^verbatim>\<open>n\<close> are named \<open>msig_m\<close> and \<open>msig_n\<close> here.\<close>

record MultisigInfo =
  msig_m :: nat
  msig_n :: nat
  initialized :: bool
  signer1 :: PublicKey
  signer2 :: PublicKey
  signer3 :: PublicKey
  signer4 :: PublicKey
  signer5 :: PublicKey
  signer6 :: PublicKey
  signer7 :: PublicKey
  signer8 :: PublicKey
  signer9 :: PublicKey
  signer10 :: PublicKey
  signer11 :: PublicKey

section \<open>Ledger core: the token program the builders address\<close>

text \<open>The token program itself (its records, its authority check and its instruction
  processor) is not among the sources, which hold only the client side. Every definition of
  this section is written from the specification, and says so.\<close>

subsection \<open>Data model\<close>

type_synonym u64 = "64 word"

text \<open>Modelled from the spec: the error kinds of the absent processor, as section 7 lists
  them.\<close>

datatype error =
    InvalidAccountData | AccountNotInitialized | AlreadyInitialized | MissingRequiredSignature
  | InsufficientFunds | AccountFrozen | NumericOverflow | MintMismatch | FixedSupply
  | FreezeDisabled | InvalidInstructionData

text \<open>Modelled from the spec: an authority field of the absent record types, the tagged
  variant of section 9: a direct public key, or the slot of a Multisig record.\<close>

datatype authority = Direct PublicKey | Multisig PublicKey

text \<open>Modelled from the spec: the Mint record of the absent program (section 3).\<close>

record Mint =
  mintAuthority :: "authority option"
  "supply" :: u64
  decimals :: nat
  isInitialized :: bool
  freezeAuthority :: "authority option"

text \<open>Modelled from the spec: the three states of a Token Account (section 3).\<close>

datatype AccountState = Uninitialized | Initialized | Frozen

text \<open>Modelled from the spec: the Token Account record of the absent program (section 3).
  \<open>mint\<close> is the slot of the owning Mint.\<close>

record TokenAccount =
  mint :: PublicKey
  owner :: authority
  amount :: u64
  delegate :: "authority option"
  delegatedAmount :: u64
  state :: AccountState
  isNative :: bool
  nativeReserve :: u64
  closeAuthority :: "authority option"

subsection \<open>Account Record Store\<close>

text \<open>Modelled from the spec: what a storage slot of the absent store holds (section 4.1):
  one of the three record kinds. The Multisig record is the \<open>MultisigInfo\<close> above.\<close>

datatype slot_data = MintData Mint | AccountData TokenAccount | MultisigData MultisigInfo

text \<open>Modelled from the spec: a storage slot supplied by the host (sections 4.1, 4.4):
  its native balance, whether the instruction may write it, whether it belongs to the
  ledger's program, and the record in it.\<close>

record Slot =
  lamports :: u64
  writable :: bool
  program_owned :: bool
  contents :: slot_data

text \<open>Modelled from the spec: the global ledger state (section 9): the slots the caller
  supplies, each under its address.\<close>

type_synonym ledger = "(PublicKey \<times> Slot) list"

text \<open>Modelled from the spec: \<open>readMint\<close>, \<open>readTokenAccount\<close> and \<open>readMultisig\<close> of
  the absent store (section 4.1); each fails with \<open>InvalidAccountData\<close> on a slot that
  does not hold its kind of record.\<close>

definition readMint :: "ledger \<Rightarrow> PublicKey \<Rightarrow> error + Mint" where
  "readMint s k =
     (case map_of s k of
        None \<Rightarrow> Inl InvalidAccountData
      | Some sl \<Rightarrow> (case contents sl of MintData x \<Rightarrow> Inr x | _ \<Rightarrow> Inl InvalidAccountData))"

definition readTokenAccount :: "ledger \<Rightarrow> PublicKey \<Rightarrow> error + TokenAccount" where
  "readTokenAccount s k =
     (case map_of s k of
        None \<Rightarrow> Inl InvalidAccountData
      | Some sl \<Rightarrow> (case contents sl of AccountData x \<Rightarrow> Inr x | _ \<Rightarrow> Inl InvalidAccountData))"

definition readMultisig :: "ledger \<Rightarrow> PublicKey \<Rightarrow> error + MultisigInfo" where
  "readMultisig s k =
     (case map_of s k of
        None \<Rightarrow> Inl InvalidAccountData
      | Some sl \<Rightarrow> (case contents sl of MultisigData x \<Rightarrow> Inr x | _ \<Rightarrow> Inl InvalidAccountData))"

text \<open>Modelled from the spec: the write operation of the absent store (section 4.1), which
  fails if the slot is not writable or not owned by the ledger's program. The spec names no
  error kind for a refused write; the model reports \<open>InvalidAccountData\<close>.\<close>

definition writeSlot :: "ledger \<Rightarrow> PublicKey \<Rightarrow> (Slot \<Rightarrow> Slot) \<Rightarrow> error + ledger" where
  "writeSlot s k f =
     (case map_of s k of
        None \<Rightarrow> Inl InvalidAccountData
      | Some sl \<Rightarrow>
          if writable sl \<and> program_owned sl then Inr (AList.update k (f sl) s)
          else Inl InvalidAccountData)"

definition writeTokenAccount :: "ledger \<Rightarrow> PublicKey \<Rightarrow> TokenAccount \<Rightarrow> error + ledger" where
  "writeTokenAccount s k x = writeSlot s k (\<lambda>sl. sl\<lparr>contents := AccountData x\<rparr>)"

definition writeLamports :: "ledger \<Rightarrow> PublicKey \<Rightarrow> u64 \<Rightarrow> error + ledger" where
  "writeLamports s k v = writeSlot s k (\<lambda>sl. sl\<lparr>lamports := v\<rparr>)"

text \<open>Modelled from the spec: the numeric semantics of the absent processor (section 4.3):
  unsigned 64-bit arithmetic that fails with \<open>NumericOverflow\<close> instead of wrapping.\<close>

definition checked_add :: "u64 \<Rightarrow> u64 \<Rightarrow> error + u64" where
  "checked_add a b = (if unat a + unat b < 2 ^ 64 then Inr (a + b) else Inl NumericOverflow)"

definition checked_sub :: "u64 \<Rightarrow> u64 \<Rightarrow> error + u64" where
  "checked_sub a b = (if unat b \<le> unat a then Inr (a - b) else Inl NumericOverflow)"

subsection \<open>Authority Resolver\<close>

text \<open>Modelled from the spec: the configured signers of a Multisig record as the absent
  resolver reads them (section 3): the first \<open>n\<close> of its signer fields, in order.\<close>

definition configured_signers :: "MultisigInfo \<Rightarrow> PublicKey list" where
  "configured_signers g =
     take (msig_n g)
       [signer1 g, signer2 g, signer3 g, signer4 g, signer5 g, signer6 g, signer7 g,
        signer8 g, signer9 g, signer10 g, signer11 g]"

text \<open>Modelled from the spec: the count the absent resolver compares with \<open>m\<close>
  (section 4.2): how many of the configured signers are present in the signer set, each
  configured signer looked up once.\<close>

definition signers_present :: "MultisigInfo \<Rightarrow> PublicKey list \<Rightarrow> nat" where
  "signers_present g sg = length (filter (\<lambda>k. k \<in> set sg) (configured_signers g))"

abbreviation Authorized :: "error + unit" where
  "Authorized \<equiv> Inr ()"

text \<open>Modelled from the spec: the Authority Resolver of the absent program (section 4.2).
  Given the required authority and the keys that co-signed, it answers \<open>Authorized\<close> in the
  direct case iff the key is among the signers, in the multisig case iff the record at the
  reference is initialized and at least \<open>m\<close> of its configured signers are among them;
  otherwise \<open>MissingRequiredSignature\<close>. It returns nothing but the answer.\<close>

fun resolve :: "ledger \<Rightarrow> authority \<Rightarrow> PublicKey list \<Rightarrow> error + unit" where
  "resolve s (Direct k) sg =
     (if k \<in> set sg then Authorized else Inl MissingRequiredSignature)"
| "resolve s (Multisig r) sg =
     (case readMultisig s r of
        Inl _ \<Rightarrow> Inl MissingRequiredSignature
      | Inr g \<Rightarrow>
          if initialized g \<and> msig_m g \<le> signers_present g sg then Authorized
          else Inl MissingRequiredSignature)"

subsection \<open>Instruction Processor: Transfer, Approve, Revoke\<close>

text \<open>Modelled from the spec: the permission part of the Transfer row of the absent
  processor (section 4.3): the authority resolves for the owner, or for the delegate with a
  sufficient \<open>delegatedAmount\<close>; the delegated amount is decremented if the delegate is used,
  and the delegate is cleared once it is fully consumed (section 3). The result is the source
  account with that bookkeeping done.\<close>

definition authorise_spend ::
  "ledger \<Rightarrow> TokenAccount \<Rightarrow> u64 \<Rightarrow> PublicKey list \<Rightarrow> error + TokenAccount" where
  "authorise_spend s a amt sg =
     (if resolve s (owner a) sg = Authorized then Inr a
      else case delegate a of
             None \<Rightarrow> Inl MissingRequiredSignature
           | Some d \<Rightarrow>
               if resolve s d sg \<noteq> Authorized then Inl MissingRequiredSignature
               else if delegatedAmount a < amt then Inl InsufficientFunds
               else Inr (a\<lparr>delegatedAmount := delegatedAmount a - amt,
                            delegate := (if delegatedAmount a - amt = 0 then None else Some d)\<rparr>))"

text \<open>Modelled from the spec: the Native-Wrap Adapter of the absent program on Transfer
  (section 4.4): for a native account the native balance moves by the same quantity, from the
  source slot to the destination slot.\<close>

definition move_native ::
  "ledger \<Rightarrow> PublicKey \<Rightarrow> PublicKey \<Rightarrow> u64 \<Rightarrow> error + ledger" where
  "move_native s src dst amt =
     (case (map_of s src, map_of s dst) of
        (Some a, Some b) \<Rightarrow>
          (case checked_sub (lamports a) amt of
             Inl e \<Rightarrow> Inl e
           | Inr x \<Rightarrow>
               (case checked_add (lamports b) amt of
                  Inl e \<Rightarrow> Inl e
                | Inr y \<Rightarrow>
                    (case writeLamports s src x of
                       Inl e \<Rightarrow> Inl e
                     | Inr s' \<Rightarrow> writeLamports s' dst y)))
      | _ \<Rightarrow> Inl InvalidAccountData)"

text \<open>Modelled from the spec: the Transfer row of the absent processor (section 4.3).
  A transfer whose source slot is its destination slot succeeds at once, with no check and
  no effect. Otherwise both accounts are initialized, not frozen and of the same Mint, the
  authority resolves, and the source holds the requested amount; then the source is
  decremented and the destination incremented, and the native balance follows for a native
  account.\<close>

definition process_Transfer ::
  "ledger \<Rightarrow> PublicKey \<Rightarrow> PublicKey \<Rightarrow> u64 \<Rightarrow> PublicKey list \<Rightarrow> error + ledger" where
  "process_Transfer s src dst amt sg =
     (if src = dst then Inr s
      else
       (case readTokenAccount s src of
          Inl e \<Rightarrow> Inl e
        | Inr a \<Rightarrow>
       (case readTokenAccount s dst of
          Inl e \<Rightarrow> Inl e
        | Inr b \<Rightarrow>
       (if state a = Uninitialized \<or> state b = Uninitialized then Inl AccountNotInitialized
        else if state a = Frozen \<or> state b = Frozen then Inl AccountFrozen
        else if mint a \<noteq> mint b then Inl MintMismatch
        else
       (case authorise_spend s a amt sg of
          Inl e \<Rightarrow> Inl e
        | Inr a' \<Rightarrow>
       (if amount a < amt then Inl InsufficientFunds
        else
       (case checked_sub (amount a) amt of
          Inl e \<Rightarrow> Inl e
        | Inr x \<Rightarrow>
       (case checked_add (amount b) amt of
          Inl e \<Rightarrow> Inl e
        | Inr y \<Rightarrow>
       (case (if isNative a then move_native s src dst amt else Inr s) of
          Inl e \<Rightarrow> Inl e
        | Inr s1 \<Rightarrow>
       (case writeTokenAccount s1 src (a'\<lparr>amount := x\<rparr>) of
          Inl e \<Rightarrow> Inl e
        | Inr s2 \<Rightarrow> writeTokenAccount s2 dst (b\<lparr>amount := y\<rparr>)))))))))))"

text \<open>Modelled from the spec: the Approve row of the absent processor (section 4.3):
  the source is initialized; the delegate and the delegated amount are set. The row lists no
  other precondition.\<close>

definition process_Approve ::
  "ledger \<Rightarrow> PublicKey \<Rightarrow> authority \<Rightarrow> u64 \<Rightarrow> error + ledger" where
  "process_Approve s src d amt =
     (case readTokenAccount s src of
        Inl e \<Rightarrow> Inl e
      | Inr a \<Rightarrow>
          if state a = Uninitialized then Inl AccountNotInitialized
          else writeTokenAccount s src (a\<lparr>delegate := Some d, delegatedAmount := amt\<rparr>))"

text \<open>Modelled from the spec: the Revoke row of the absent processor (section 4.3):
  the source is initialized; the delegate is cleared and the delegated amount set to 0.\<close>

definition process_Revoke :: "ledger \<Rightarrow> PublicKey \<Rightarrow> error + ledger" where
  "process_Revoke s src =
     (case readTokenAccount s src of
        Inl e \<Rightarrow> Inl e
      | Inr a \<Rightarrow>
          if state a = Uninitialized then Inl AccountNotInitialized
          else writeTokenAccount s src (a\<lparr>delegate := None, delegatedAmount := 0\<rparr>))"

text \<open>Modelled from the spec: the three instruction kinds above as the absent processor
  receives them, each with the slots it names and its payload.\<close>

datatype instruction =
    Transfer PublicKey PublicKey u64
  | Approve PublicKey authority u64
  | Revoke PublicKey

text \<open>Modelled from the spec: the dispatch of the absent processor on the instruction kind;
  \<open>sg\<close> is the set of keys that co-signed.\<close>

fun process :: "PublicKey list \<Rightarrow> instruction \<Rightarrow> ledger \<Rightarrow> error + ledger" where
  "process sg (Transfer src dst amt) s = process_Transfer s src dst amt sg"
| "process sg (Approve src d amt) s = process_Approve s src d amt"
| "process sg (Revoke src) s = process_Revoke s src"

text \<open>Modelled from the spec: one instruction as one atomic transition (section 5): it
  either fully succeeds or leaves the state as it was.\<close>

definition execute :: "ledger \<Rightarrow> PublicKey list \<times> instruction \<Rightarrow> ledger" where
  "execute s t = (case process (fst t) (snd t) s of Inl e \<Rightarrow> s | Inr s' \<Rightarrow> s')"

text \<open>Modelled from the spec: a sequence of operations, each an instruction with the keys
  that signed it, executed one after the other (section 5).\<close>

definition run :: "ledger \<Rightarrow> (PublicKey list \<times> instruction) list \<Rightarrow> ledger" where
  "run s ts = foldl execute s ts"

subsection \<open>Supply and balances\<close>

text \<open>What a slot contributes to the balances of the Mint at \<open>k\<close>: the amount of an
  initialized or frozen Token Account of that Mint, and nothing otherwise. The total is taken
  over the slots of the ledger.\<close>

definition account_amount :: "PublicKey \<Rightarrow> Slot \<Rightarrow> nat" where
  "account_amount k sl =
     (case contents sl of
        AccountData a \<Rightarrow> if state a \<noteq> Uninitialized \<and> mint a = k then unat (amount a) else 0
      | _ \<Rightarrow> 0)"

definition total_amount :: "ledger \<Rightarrow> PublicKey \<Rightarrow> nat" where
  "total_amount s k = sum_list (map (\<lambda>p. account_amount k (snd p)) s)"

text \<open>The supply invariant of the data model (section 3) for the Mint at \<open>k\<close>: the Mint is
  initialized and its supply is the total of the balances of its accounts.\<close>

definition supply_conserved :: "ledger \<Rightarrow> PublicKey \<Rightarrow> bool" where
  "supply_conserved s k =
     (case readMint s k of
        Inl _ \<Rightarrow> False
      | Inr x \<Rightarrow> isInitialized x \<and> unat (supply x) = total_amount s k)"

text \<open>Two ledgers keep the same books when they hold the same slots, the same total
  balance for every Mint, and the same Mint records.\<close>

definition same_books :: "ledger \<Rightarrow> ledger \<Rightarrow> bool" where
  "same_books s s' \<longleftrightarrow>
     map fst s' = map fst s \<and> (\<forall>j. total_amount s' j = total_amount s j)
     \<and> (\<forall>j. readMint s' j = readMint s j)"

subsection \<open>Sample inputs\<close>

text \<open>A sample of the imports: \<^verbatim>\<open>addSigners\<close> appends the owner and the signing accounts to
  the keys it is given; the enum values are those the four builders would see if the enum
  numbered the instruction kinds from 0 in the order on the wire.\<close>

definition sample_addSigners ::
  "AccountMeta list \<Rightarrow> PublicKey \<Rightarrow> Signer list \<Rightarrow> AccountMeta list" where
  "sample_addSigners ks own ms =
     (if ms \<noteq> []
      then ks @ \<lparr>pubkey = own, isSigner = False, isWritable = False\<rparr>
              # map (\<lambda>sg. \<lparr>pubkey = publicKey sg, isSigner = True, isWritable = False\<rparr>) ms
      else ks @ [\<lparr>pubkey = own, isSigner = True, isWritable = False\<rparr>])"

fun sample_value :: "TokenInstruction \<Rightarrow> nat" where
  "sample_value TokenInstruction.Revoke = 5"
| "sample_value TokenInstruction.Burn = 8"
| "sample_value TokenInstruction.FreezeAccount = 10"
| "sample_value TokenInstruction.ThawAccount = 11"
| "sample_value _ = 0"

definition sample_Imports :: Imports where
  "sample_Imports =
     \<lparr>TOKEN_PROGRAM_ID = 6, TokenInstruction_value = sample_value,
      addSigners = sample_addSigners\<rparr>"

text \<open>A 2-of-3 Multisig record, and a ledger with one Mint of supply 50, two of its Token
  Accounts holding 30 and 20, and that Multisig record, which owns the second account.\<close>

definition sample_multisig :: MultisigInfo where
  "sample_multisig =
     \<lparr>msig_m = 2, msig_n = 3, initialized = True, signer1 = 21, signer2 = 22, signer3 = 23,
      signer4 = 0, signer5 = 0, signer6 = 0, signer7 = 0, signer8 = 0, signer9 = 0,
      signer10 = 0, signer11 = 0\<rparr>"

definition sample_ledger :: ledger where
  "sample_ledger =
     [(100, \<lparr>lamports = 1, writable = True, program_owned = True,
             contents = MintData \<lparr>mintAuthority = Some (Direct 7), supply = 50, decimals = 2,
                                  isInitialized = True, freezeAuthority = None\<rparr>\<rparr>),
      (1, \<lparr>lamports = 1, writable = True, program_owned = True,
           contents = AccountData \<lparr>mint = 100, owner = Direct 11, amount = 30, delegate = None,
                                   delegatedAmount = 0, state = Initialized, isNative = False,
                                   nativeReserve = 0, closeAuthority = None\<rparr>\<rparr>),
      (2, \<lparr>lamports = 1, writable = True, program_owned = True,
           contents = AccountData \<lparr>mint = 100, owner = Multisig 9, amount = 20, delegate = None,
                                   delegatedAmount = 0, state = Initialized, isNative = False,
                                   nativeReserve = 0, closeAuthority = None\<rparr>\<rparr>),
      (9, \<lparr>lamports = 1, writable = True, program_owned = True,
           contents = MultisigData sample_multisig\<rparr>)]"

text \<open>Four operations on the sample ledger: the owner of account 1 transfers 5 to account 2;
  account 2 approves and revokes a delegate; a transfer out of account 2 that nobody signed,
  which is refused.\<close>

definition sample_operations :: "(PublicKey list \<times> instruction) list" where
  "sample_operations =
     [([11], Transfer 1 2 5), ([], Approve 2 (Direct 12) 7), ([], Revoke 2),
      ([], Transfer 2 1 1)]"

section \<open>Properties of the instruction builders\<close>

lemma length_toBufferLE: "length (toBufferLE v w) = w"
  by (induction w arbitrary: v) auto

text \<open>Decoding the little-endian bytes gives the number back.\<close>

lemma toBigIntLE_toBufferLE:
  "0 \<le> v \<Longrightarrow> v < 256 ^ w \<Longrightarrow> toBigIntLE (toBufferLE v w) = v"
proof (induction w arbitrary: v)
  case 0
  then show ?case by simp
next
  case (Suc w)
  have "0 \<le> v div 256" using Suc.prems by simp
  moreover have "v div 256 < 256 ^ w"
    using Suc.prems by (simp add: div_less_iff_less_mult mult.commute)
  ultimately have "toBigIntLE (toBufferLE (v div 256) w) = v div 256" by (rule Suc.IH)
  moreover have "uint (word_of_int (v mod 256) :: byte) = v mod 256"
    by (simp add: uint_word_of_int take_bit_eq_mod)
  ultimately show ?case by simp
qed

lemma u8_encode_enum:
  "TokenInstruction_value imp i < 256 \<Longrightarrow> offset < length b \<Longrightarrow>
   u8_encode (enum_number imp i) b offset
     = Inr (Buffer_set b offset [of_nat (TokenInstruction_value imp i)])"
  by (simp add: enum_number_def)

lemma burn_encode:
  assumes "0 \<le> a" "a < 2 ^ 64" "TokenInstruction_value imp TokenInstruction.Burn < 256"
  shows "Structure_encode burn_dataLayout
           [(''instruction'', enum_number imp TokenInstruction.Burn), (''amount'', JBigint a)]
           (Buffer_alloc (Structure_span burn_dataLayout)) 0
         = Inr (of_nat (TokenInstruction_value imp TokenInstruction.Burn) # toBufferLE a 8)"
  using assms
  apply (simp add: burn_dataLayout_def Structure_span_def Buffer_alloc_def u8_encode_enum)
  apply (simp add: Buffer_set_def length_toBufferLE)
  done

lemma one_byte_encode:
  assumes "TokenInstruction_value imp i < 256"
  shows "Structure_encode [u8 ''instruction''] [(''instruction'', enum_number imp i)]
           (Buffer_alloc (Structure_span [u8 ''instruction''])) 0
         = Inr [of_nat (TokenInstruction_value imp i)]"
  using assms
  by (simp add: Structure_span_def Buffer_alloc_def u8_encode_enum Buffer_set_def)

text \<open>Claim C7. For every integer \<open>a\<close> with \<open>0 \<le> a < 2 ^ 64\<close>, passed as the amount either
  as the bigint \<open>a\<close> or as the number \<open>a\<close> (and the enum value of \<^verbatim>\<open>Burn\<close> fitting a byte,
  as a discriminant must), \<^verbatim>\<open>createBurnInstruction\<close> returns an instruction whose data is
  exactly nine bytes: the byte of \<^verbatim>\<open>TokenInstruction.Burn\<close>, then eight bytes that are the
  little-endian encoding of \<open>a\<close>.\<close>

theorem createBurnInstruction_data:
  assumes "0 \<le> a" and "a < 2 ^ 64"
    and "TokenInstruction_value imp TokenInstruction.Burn < 256"
    and "amt = JBigint a \<or> amt = JNumber (Finite (of_int a))"
  shows "\<exists>ix bs. createBurnInstruction imp acct mnt own amt ms pid = Inr ix
           \<and> length (data ix) = 9
           \<and> data ix = of_nat (TokenInstruction_value imp TokenInstruction.Burn) # bs
           \<and> unat (hd (data ix)) = TokenInstruction_value imp TokenInstruction.Burn
           \<and> length bs = 8 \<and> bs = toBufferLE a 8 \<and> toBigIntLE bs = a"
proof -
  have conv: "js_BigInt amt = Inr a"
    using assms(4) by auto
  have "a < 256 ^ 8" using assms(2) by simp
  then have "toBigIntLE (toBufferLE a 8) = a"
    using assms(1) by (rule toBigIntLE_toBufferLE[rotated])
  moreover have "unat (of_nat (TokenInstruction_value imp TokenInstruction.Burn) :: byte)
                   = TokenInstruction_value imp TokenInstruction.Burn"
    using assms(3) by (simp add: unat_of_nat)
  ultimately show ?thesis
    using conv burn_encode[OF assms(1,2,3)]
    by (simp add: createBurnInstruction_def Let_def length_toBufferLE)
qed

theorem createBurnInstruction_data_witness:
  "(0::int) \<le> 1000 \<and> (1000::int) < 2 ^ 64
   \<and> TokenInstruction_value sample_Imports TokenInstruction.Burn < 256
   \<and> (\<exists>ix. createBurnInstruction sample_Imports 1 2 3 (JBigint 1000) None None = Inr ix
           \<and> data ix = [8, 232, 3, 0, 0, 0, 0, 0, 0])
   \<and> (\<exists>ix. createBurnInstruction sample_Imports 1 2 3 (JNumber (Finite 1000)) None None = Inr ix
           \<and> data ix = [8, 232, 3, 0, 0, 0, 0, 0, 0])
   \<and> (\<exists>ix. createBurnInstruction sample_Imports 1 2 3 (JBigint 7) None None = Inr ix
           \<and> data ix = [8, 7, 0, 0, 0, 0, 0, 0, 0])"
proof -
  have v: "TokenInstruction_value sample_Imports TokenInstruction.Burn = 8"
    by (simp add: sample_Imports_def)
  have b: "toBufferLE 1000 8 = [232, 3, 0, 0, 0, 0, 0, 0]"
    by (simp add: eval_nat_numeral)
  have c: "toBufferLE 7 8 = [7, 0, 0, 0, 0, 0, 0, 0]"
    by (simp add: eval_nat_numeral)
  have "\<exists>ix. createBurnInstruction sample_Imports 1 2 3 (JBigint 1000) None None = Inr ix
           \<and> data ix = [8, 232, 3, 0, 0, 0, 0, 0, 0]"
    using createBurnInstruction_data
            [of 1000 sample_Imports "JBigint 1000" 1 2 3 None None]
    by (auto simp: v b)
  moreover have "\<exists>ix. createBurnInstruction sample_Imports 1 2 3 (JNumber (Finite 1000)) None None
                        = Inr ix
           \<and> data ix = [8, 232, 3, 0, 0, 0, 0, 0, 0]"
    using createBurnInstruction_data
            [of 1000 sample_Imports "JNumber (Finite 1000)" 1 2 3 None None]
    by (auto simp: v b)
  moreover have "\<exists>ix. createBurnInstruction sample_Imports 1 2 3 (JBigint 7) None None = Inr ix
           \<and> data ix = [8, 7, 0, 0, 0, 0, 0, 0, 0]"
    using createBurnInstruction_data
            [of 7 sample_Imports "JBigint 7" 1 2 3 None None]
    by (auto simp: v c)
  ultimately show ?thesis by (simp add: v)
qed

text \<open>Claim C8. For all arguments, the data of a Revoke, a FreezeAccount and a ThawAccount
  instruction is exactly one byte, the byte of the instruction's enum value (which has to fit
  a byte), with nothing after it.\<close>

theorem discriminant_only_data:
  "(TokenInstruction_value imp TokenInstruction.Revoke < 256 \<longrightarrow>
      (\<exists>ix. createRevokeInstruction imp acct own ms pid = Inr ix
         \<and> data ix = [of_nat (TokenInstruction_value imp TokenInstruction.Revoke)]))
   \<and> (TokenInstruction_value imp TokenInstruction.FreezeAccount < 256 \<longrightarrow>
      (\<exists>ix. createFreezeAccountInstruction imp acct mnt auth ms pid = Inr ix
         \<and> data ix = [of_nat (TokenInstruction_value imp TokenInstruction.FreezeAccount)]))
   \<and> (TokenInstruction_value imp TokenInstruction.ThawAccount < 256 \<longrightarrow>
      (\<exists>ix. createThawAccountInstruction imp acct mnt auth ms pid = Inr ix
         \<and> data ix = [of_nat (TokenInstruction_value imp TokenInstruction.ThawAccount)]))"
  by (simp add: createRevokeInstruction_def createFreezeAccountInstruction_def
        createThawAccountInstruction_def revoke_dataLayout_def freezeAccount_dataLayout_def
        thawAccount_dataLayout_def one_byte_encode Let_def del: Structure_encode.simps)

theorem discriminant_only_data_witness:
  "TokenInstruction_value sample_Imports TokenInstruction.Revoke < 256
   \<and> TokenInstruction_value sample_Imports TokenInstruction.FreezeAccount < 256
   \<and> TokenInstruction_value sample_Imports TokenInstruction.ThawAccount < 256
   \<and> (\<exists>ix. createRevokeInstruction sample_Imports 1 3 None None = Inr ix \<and> data ix = [5])
   \<and> (\<exists>ix. createFreezeAccountInstruction sample_Imports 1 2 4 None None = Inr ix
         \<and> data ix = [10])
   \<and> (\<exists>ix. createThawAccountInstruction sample_Imports 1 2 4 None None = Inr ix
         \<and> data ix = [11])"
  using discriminant_only_data[of sample_Imports 1 3 None None 2 4]
  by (simp add: sample_Imports_def)

text \<open>Claim C10. \<^verbatim>\<open>createBurnInstruction\<close> returns the same result for the integer \<open>a\<close> given
  as a number and given as a bigint. For \<open>0 \<le> a < 2 ^ 64\<close> that result is an instruction
  whose key list starts with the token account and then the mint, both writable and neither
  a signer, provided \<^verbatim>\<open>addSigners\<close> only appends to the keys it is given (and the enum value
  of \<^verbatim>\<open>Burn\<close> fits a byte).\<close>

theorem createBurnInstruction_number_bigint:
  "createBurnInstruction imp acct mnt own (JNumber (Finite (of_int a))) ms pid
     = createBurnInstruction imp acct mnt own (JBigint a) ms pid
   \<and> (0 \<le> a \<and> a < 2 ^ 64 \<and> TokenInstruction_value imp TokenInstruction.Burn < 256
        \<and> (\<forall>ks k l. take (length ks) (addSigners imp ks k l) = ks) \<longrightarrow>
      (\<exists>ix. createBurnInstruction imp acct mnt own (JBigint a) ms pid = Inr ix
         \<and> take 2 (keys ix) = [\<lparr>pubkey = acct, isSigner = False, isWritable = True\<rparr>,
                               \<lparr>pubkey = mnt, isSigner = False, isWritable = True\<rparr>]))"
proof (intro conjI impI)
  show "createBurnInstruction imp acct mnt own (JNumber (Finite (of_int a))) ms pid
     = createBurnInstruction imp acct mnt own (JBigint a) ms pid"
    by (simp add: createBurnInstruction_def)
next
  let ?ks = "[\<lparr>pubkey = acct, isSigner = False, isWritable = True\<rparr>,
              \<lparr>pubkey = mnt, isSigner = False, isWritable = True\<rparr>]"
  assume h: "0 \<le> a \<and> a < 2 ^ 64 \<and> TokenInstruction_value imp TokenInstruction.Burn < 256
        \<and> (\<forall>ks k l. take (length ks) (addSigners imp ks k l) = ks)"
  then have "take (length ?ks)
               (addSigners imp ?ks own (case ms of None \<Rightarrow> [] | Some l \<Rightarrow> l)) = ?ks"
    by blast
  then have "take 2 (addSigners imp ?ks own (case ms of None \<Rightarrow> [] | Some l \<Rightarrow> l)) = ?ks"
    by (simp add: numeral_2_eq_2)
  moreover have "Structure_encode burn_dataLayout
           [(''instruction'', enum_number imp TokenInstruction.Burn), (''amount'', JBigint a)]
           (Buffer_alloc (Structure_span burn_dataLayout)) 0
         = Inr (of_nat (TokenInstruction_value imp TokenInstruction.Burn) # toBufferLE a 8)"
    using h by (intro burn_encode) auto
  ultimately show "\<exists>ix. createBurnInstruction imp acct mnt own (JBigint a) ms pid = Inr ix
         \<and> take 2 (keys ix) = ?ks"
    by (simp add: createBurnInstruction_def Let_def)
qed

theorem createBurnInstruction_number_bigint_witness:
  "(0::int) \<le> 2 ^ 53 \<and> (2 ^ 53 :: int) < 2 ^ 64
   \<and> TokenInstruction_value sample_Imports TokenInstruction.Burn < 256
   \<and> (\<forall>ks k l. take (length ks) (addSigners sample_Imports ks k l) = ks)
   \<and> createBurnInstruction sample_Imports 1 2 3 (JNumber (Finite (of_int (2 ^ 53)))) None None
       = createBurnInstruction sample_Imports 1 2 3 (JBigint (2 ^ 53)) None None
   \<and> (\<exists>ix. createBurnInstruction sample_Imports 1 2 3 (JBigint (2 ^ 53)) None None = Inr ix
         \<and> take 2 (keys ix) = [\<lparr>pubkey = 1, isSigner = False, isWritable = True\<rparr>,
                               \<lparr>pubkey = 2, isSigner = False, isWritable = True\<rparr>])"
proof -
  have a: "\<forall>ks k l. take (length ks) (addSigners sample_Imports ks k l) = ks"
    by (simp add: sample_Imports_def sample_addSigners_def)
  have b: "TokenInstruction_value sample_Imports TokenInstruction.Burn < 256"
    by (simp add: sample_Imports_def)
  show ?thesis
    using a b createBurnInstruction_number_bigint[of sample_Imports 1 2 3 "2 ^ 53" None None]
    by simp
qed

section \<open>Properties of the ledger core\<close>

subsection \<open>The Authority Resolver\<close>

lemma signers_present_card:
  "signers_present g sg
     = card {i. i < length (configured_signers g) \<and> configured_signers g ! i \<in> set sg}"
  by (simp add: signers_present_def length_filter_conv_card)

text \<open>Claim C3. For an initialized Multisig record, the Authority Resolver answers
  \<open>Authorized\<close> exactly when at least \<open>m\<close> of the configured signers (each position of the
  signer list counted once) are in the signer set, and \<open>MissingRequiredSignature\<close> otherwise;
  the answer depends on the signer set only, not on the order or repetition of its keys; the
  record has \<open>n\<close> configured signers, and never more than its eleven fields. The resolver
  returns the answer alone, no state.\<close>

theorem multisig_threshold:
  assumes "readMultisig s r = Inr g" and "initialized g" and "set sg' = set sg"
  shows "resolve s (Multisig r) sg
           = (if msig_m g \<le> card {i. i < length (configured_signers g)
                                      \<and> configured_signers g ! i \<in> set sg}
              then Authorized else Inl MissingRequiredSignature)
         \<and> resolve s (Multisig r) sg' = resolve s (Multisig r) sg
         \<and> length (configured_signers g) = min (msig_n g) 11"
proof -
  have "resolve s (Multisig r) sg
          = (if msig_m g \<le> signers_present g sg then Authorized
             else Inl MissingRequiredSignature)"
    using assms(1,2) by simp
  then have "resolve s (Multisig r) sg
           = (if msig_m g \<le> card {i. i < length (configured_signers g)
                                      \<and> configured_signers g ! i \<in> set sg}
              then Authorized else Inl MissingRequiredSignature)"
    by (simp only: signers_present_card)
  moreover have "signers_present g sg' = signers_present g sg"
    using assms(3) by (simp add: signers_present_def)
  then have "resolve s (Multisig r) sg' = resolve s (Multisig r) sg"
    using assms(1) by simp
  moreover have "length (configured_signers g) = min (msig_n g) 11"
    by (simp add: configured_signers_def min.commute)
  ultimately show ?thesis by blast
qed

theorem multisig_threshold_witness:
  "readMultisig sample_ledger 9 = Inr sample_multisig \<and> initialized sample_multisig
   \<and> set [23, 21, 23] = set [21, 23 :: PublicKey]
   \<and> resolve sample_ledger (Multisig 9) [21, 23] = Authorized
   \<and> resolve sample_ledger (Multisig 9) [23, 21, 23] = Authorized
   \<and> resolve sample_ledger (Multisig 9) [21] = Inl MissingRequiredSignature
   \<and> 2 \<le> card {i. i < length (configured_signers sample_multisig)
                  \<and> configured_signers sample_multisig ! i \<in> set [21, 23]}"
proof -
  have r: "readMultisig sample_ledger 9 = Inr sample_multisig"
    by (simp add: sample_ledger_def readMultisig_def)
  have i: "initialized sample_multisig" by (simp add: sample_multisig_def)
  have e: "set [23, 21, 23] = set [21, 23 :: PublicKey]" by auto
  have a: "resolve sample_ledger (Multisig 9) [21, 23] = Authorized"
    using r by (simp add: sample_multisig_def signers_present_def configured_signers_def)
  have n: "resolve sample_ledger (Multisig 9) [21] = Inl MissingRequiredSignature"
    using r by (simp add: sample_multisig_def signers_present_def configured_signers_def)
  let ?c = "card {i. i < length (configured_signers sample_multisig)
                  \<and> configured_signers sample_multisig ! i \<in> set [21, 23]}"
  from multisig_threshold[OF r i e]
  have eq: "resolve sample_ledger (Multisig 9) [21, 23]
              = (if msig_m sample_multisig \<le> ?c then Authorized
                 else Inl MissingRequiredSignature)"
    and sw: "resolve sample_ledger (Multisig 9) [23, 21, 23]
              = resolve sample_ledger (Multisig 9) [21, 23]"
    by blast+
  have "msig_m sample_multisig \<le> ?c"
  proof (rule ccontr)
    assume "\<not> msig_m sample_multisig \<le> ?c"
    with eq have "resolve sample_ledger (Multisig 9) [21, 23] = Inl MissingRequiredSignature"
      by (simp only: if_False)
    with a show False by simp
  qed
  moreover have "msig_m sample_multisig = 2" by (simp add: sample_multisig_def)
  ultimately have "2 \<le> ?c" by simp
  with r i e a n sw show ?thesis by (simp only: simp_thms)
qed

subsection \<open>Writes and the books\<close>

lemma writeSlot_Inr:
  "writeSlot s k f = Inr s' \<Longrightarrow> \<exists>sl. map_of s k = Some sl \<and> s' = AList.update k (f sl) s"
  by (auto simp: writeSlot_def split: option.splits if_splits)

lemma update_keys_same:
  "map_of s k = Some sl \<Longrightarrow> map fst (AList.update k v s) = map fst s"
  by (induction s) (auto split: if_splits)

text \<open>Replacing the slot at \<open>k\<close> changes the total by what the slot contributes.\<close>

lemma total_amount_update:
  "map_of s k = Some sl \<Longrightarrow>
   total_amount (AList.update k sl' s) j + account_amount j sl
     = total_amount s j + account_amount j sl'"
  by (induction s) (auto simp: total_amount_def split: if_splits)

lemma readMint_update:
  "map_of s k = Some sl \<Longrightarrow>
   (\<forall>x. contents sl \<noteq> MintData x) \<Longrightarrow> (\<forall>x. contents sl' \<noteq> MintData x) \<Longrightarrow>
   readMint (AList.update k sl' s) j = readMint s j"
  by (auto simp: readMint_def update_conv' split: option.splits slot_data.splits)

lemma readTokenAccount_Inr:
  "readTokenAccount s k = Inr a \<Longrightarrow> \<exists>sl. map_of s k = Some sl \<and> contents sl = AccountData a"
  by (auto simp: readTokenAccount_def split: option.splits slot_data.splits)

lemma readTokenAccount_update_other:
  "k' \<noteq> k \<Longrightarrow> readTokenAccount (AList.update k v s) k' = readTokenAccount s k'"
  by (simp add: readTokenAccount_def update_conv')

lemma same_books_refl: "same_books s s"
  by (simp add: same_books_def)

lemma same_books_trans: "same_books s s' \<Longrightarrow> same_books s' s'' \<Longrightarrow> same_books s s''"
  by (simp add: same_books_def)

text \<open>Writing back an account whose mint, state and amount are those it had.\<close>

lemma writeTokenAccount_same:
  assumes "writeTokenAccount s k a' = Inr s'" "readTokenAccount s k = Inr a"
    "mint a' = mint a" "state a' = state a" "amount a' = amount a"
  shows "same_books s s'"
proof -
  from assms(1) obtain sl where sl: "map_of s k = Some sl"
     and s': "s' = AList.update k (sl\<lparr>contents := AccountData a'\<rparr>) s"
    unfolding writeTokenAccount_def by (auto dest: writeSlot_Inr)
  from assms(2) sl have c: "contents sl = AccountData a"
    by (auto dest: readTokenAccount_Inr)
  have "\<And>j. account_amount j (sl\<lparr>contents := AccountData a'\<rparr>) = account_amount j sl"
    using c assms(3-5) by (simp add: account_amount_def)
  then have "\<And>j. total_amount s' j = total_amount s j"
    using total_amount_update[OF sl, of "sl\<lparr>contents := AccountData a'\<rparr>"] s' by simp
  moreover have "\<And>j. readMint s' j = readMint s j"
    unfolding s' using c by (intro readMint_update[OF sl]) auto
  moreover have "map fst s' = map fst s"
    unfolding s' by (rule update_keys_same[OF sl])
  ultimately show ?thesis by (simp add: same_books_def)
qed

text \<open>Writing back an account with another amount: only the total of its own Mint moves, by
  the difference.\<close>

lemma writeTokenAccount_amount:
  assumes "writeTokenAccount s k c' = Inr s'" "readTokenAccount s k = Inr c"
    "mint c' = mint c" "state c' = state c" "state c \<noteq> Uninitialized"
  shows "map fst s' = map fst s" and "\<And>j. readMint s' j = readMint s j"
    and "\<And>j. j \<noteq> mint c \<Longrightarrow> total_amount s' j = total_amount s j"
    and "total_amount s' (mint c) + unat (amount c) = total_amount s (mint c) + unat (amount c')"
    and "\<And>k'. k' \<noteq> k \<Longrightarrow> readTokenAccount s' k' = readTokenAccount s k'"
proof -
  from assms(1) obtain sl where sl: "map_of s k = Some sl"
     and s': "s' = AList.update k (sl\<lparr>contents := AccountData c'\<rparr>) s"
    unfolding writeTokenAccount_def by (auto dest: writeSlot_Inr)
  from assms(2) sl have c: "contents sl = AccountData c"
    by (auto dest: readTokenAccount_Inr)
  show "map fst s' = map fst s"
    unfolding s' by (rule update_keys_same[OF sl])
  show "\<And>j. readMint s' j = readMint s j"
    unfolding s' using c by (intro readMint_update[OF sl]) auto
  show "j \<noteq> mint c \<Longrightarrow> total_amount s' j = total_amount s j" for j
    using total_amount_update[OF sl, of "sl\<lparr>contents := AccountData c'\<rparr>" j] s' c assms(3-5)
    by (simp add: account_amount_def)
  show "total_amount s' (mint c) + unat (amount c) = total_amount s (mint c) + unat (amount c')"
    using total_amount_update[OF sl, of "sl\<lparr>contents := AccountData c'\<rparr>" "mint c"] s' c
      assms(3-5)
    by (simp add: account_amount_def)
  show "\<And>k'. k' \<noteq> k \<Longrightarrow> readTokenAccount s' k' = readTokenAccount s k'"
    unfolding s' by (rule readTokenAccount_update_other)
qed

lemma writeLamports_same:
  assumes "writeLamports s k v = Inr s'"
  shows "same_books s s' \<and> (\<forall>j. readTokenAccount s' j = readTokenAccount s j)"
proof -
  from assms obtain sl where sl: "map_of s k = Some sl"
     and s': "s' = AList.update k (sl\<lparr>lamports := v\<rparr>) s"
    unfolding writeLamports_def by (auto dest: writeSlot_Inr)
  have "\<And>j. account_amount j (sl\<lparr>lamports := v\<rparr>) = account_amount j sl"
    by (simp add: account_amount_def)
  then have "\<And>j. total_amount s' j = total_amount s j"
    using total_amount_update[OF sl, of "sl\<lparr>lamports := v\<rparr>"] s' by simp
  moreover have "\<And>j. readMint s' j = readMint s j"
    unfolding s' using sl by (auto simp: readMint_def update_conv' split: option.splits)
  moreover have "\<And>j. readTokenAccount s' j = readTokenAccount s j"
    unfolding s' using sl by (auto simp: readTokenAccount_def update_conv' split: option.splits)
  moreover have "map fst s' = map fst s"
    unfolding s' by (rule update_keys_same[OF sl])
  ultimately show ?thesis by (simp add: same_books_def)
qed

lemma move_native_same:
  assumes "move_native s src dst amt = Inr s'"
  shows "same_books s s' \<and> (\<forall>j. readTokenAccount s' j = readTokenAccount s j)"
proof -
  from assms obtain x y s1 where w1: "writeLamports s src x = Inr s1"
     and w2: "writeLamports s1 dst y = Inr s'"
    by (auto simp: move_native_def split: option.splits sum.splits)
  from writeLamports_same[OF w1] writeLamports_same[OF w2] show ?thesis
    by (auto intro: same_books_trans)
qed

subsection \<open>The three instructions\<close>

lemma authorise_spend_fields:
  "authorise_spend s a amt sg = Inr a' \<Longrightarrow>
   mint a' = mint a \<and> state a' = state a \<and> amount a' = amount a"
  by (auto simp: authorise_spend_def split: if_splits option.splits)

text \<open>The checked operations give the exact result, with no wrap-around.\<close>

lemma checked_sub_Inr: "checked_sub p q = Inr x \<Longrightarrow> unat x + unat q = unat p"
  by (auto simp: checked_sub_def unat_sub word_le_nat_alt split: if_splits)

lemma checked_add_Inr: "checked_add p q = Inr y \<Longrightarrow> unat y = unat p + unat q"
  by (auto simp: checked_add_def unat_word_ariths split: if_splits)

lemma process_Approve_same: "process_Approve s src d amt = Inr s' \<Longrightarrow> same_books s s'"
  by (auto simp: process_Approve_def split: sum.splits if_splits
           intro: writeTokenAccount_same)

lemma process_Revoke_same: "process_Revoke s src = Inr s' \<Longrightarrow> same_books s s'"
  by (auto simp: process_Revoke_def split: sum.splits if_splits
           intro: writeTokenAccount_same)

lemma process_Transfer_same:
  assumes "process_Transfer s src dst amt sg = Inr s'"
  shows "same_books s s'"
proof (cases "src = dst")
  case True
  with assms show ?thesis by (simp add: process_Transfer_def same_books_refl)
next
  case False
  from assms False obtain a b a' x y s1 s2 where
        ra: "readTokenAccount s src = Inr a" and rb: "readTokenAccount s dst = Inr b"
    and st: "state a \<noteq> Uninitialized" "state b \<noteq> Uninitialized"
    and mt: "mint a = mint b"
    and au: "authorise_spend s a amt sg = Inr a'"
    and cs: "checked_sub (amount a) amt = Inr x" and ca: "checked_add (amount b) amt = Inr y"
    and mv: "(if isNative a then move_native s src dst amt else Inr s) = Inr s1"
    and w1: "writeTokenAccount s1 src (a'\<lparr>amount := x\<rparr>) = Inr s2"
    and w2: "writeTokenAccount s2 dst (b\<lparr>amount := y\<rparr>) = Inr s'"
    unfolding process_Transfer_def
    by (auto split: sum.splits if_splits)
  have b1: "same_books s s1" and r1: "\<And>j. readTokenAccount s1 j = readTokenAccount s j"
    using mv move_native_same[of s src dst amt s1]
    by (auto simp: same_books_refl split: if_splits)
  note af = authorise_spend_fields[OF au]
  have ra1: "readTokenAccount s1 src = Inr a" using ra r1 by simp
  note f1 = writeTokenAccount_amount[OF w1 ra1, simplified, OF af[THEN conjunct1]
              af[THEN conjunct2, THEN conjunct1] st(1)]
  have rb2: "readTokenAccount s2 dst = Inr b" using rb r1 f1(5)[of dst] False by simp
  note f2 = writeTokenAccount_amount[OF w2 rb2, simplified, OF st(2)]
  have slots: "map fst s' = map fst s1" using f1(1) f2(1) by simp
  have mints: "\<And>j. readMint s' j = readMint s1 j" using f1(2) f2(2) by simp
  have tot: "total_amount s' j = total_amount s1 j" for j
  proof (cases "j = mint a")
    case True
    have "total_amount s2 j + unat (amount a) = total_amount s1 j + unat x"
      using f1(4) True by simp
    moreover have "total_amount s' j + unat (amount b) = total_amount s2 j + unat y"
      using f2(4) True mt by simp
    moreover note checked_sub_Inr[OF cs] checked_add_Inr[OF ca]
    ultimately show ?thesis by arith
  next
    case False
    then show ?thesis using f1(3)[of j] f2(3)[of j] mt by simp
  qed
  have "same_books s1 s'" using slots mints tot by (simp add: same_books_def)
  with b1 show ?thesis by (rule same_books_trans)
qed

lemma process_same: "process sg i s = Inr s' \<Longrightarrow> same_books s s'"
  by (cases i) (auto intro: process_Transfer_same process_Approve_same process_Revoke_same)

lemma execute_same: "same_books s (execute s t)"
  by (auto simp: execute_def same_books_refl split: sum.splits intro: process_same)

lemma run_same: "same_books s (run s ts)"
  unfolding run_def
proof (induction ts arbitrary: s)
  case Nil
  show ?case by (simp add: same_books_refl)
next
  case (Cons t ts)
  have "same_books s (execute s t)" by (rule execute_same)
  moreover have "same_books (execute s t) (foldl execute (execute s t) ts)" by (rule Cons.IH)
  ultimately show ?case by (auto intro: same_books_trans)
qed

text \<open>The sample operations do move tokens: the first transfer succeeds, and account 2 ends
  with 25.\<close>

lemma process_sample:
  "\<exists>s'. process [11] (Transfer 1 2 5) sample_ledger = Inr s'"
  by (simp add: process_Transfer_def sample_ledger_def readTokenAccount_def
     authorise_spend_def checked_add_def checked_sub_def writeTokenAccount_def writeSlot_def)

lemma run_sample:
  "map_option (\<lambda>sl. case contents sl of AccountData a \<Rightarrow> unat (amount a) | _ \<Rightarrow> 0)
     (map_of (run sample_ledger sample_operations) 2) = Some 25"
  by (simp add: run_def execute_def process_Transfer_def sample_ledger_def readTokenAccount_def
     authorise_spend_def checked_add_def checked_sub_def writeTokenAccount_def writeSlot_def
     process_Approve_def process_Revoke_def readMultisig_def sample_multisig_def
     signers_present_def configured_signers_def sample_operations_def)

text \<open>Claim C1. No Transfer, Approve or Revoke that succeeds, and no sequence of such
  operations (a refused one leaves the state as it is), changes the sum of the amounts of the
  Token Accounts of a Mint, nor the Mint record itself; so if the supply of an initialized
  Mint equals that sum before the sequence, it does after it.\<close>

theorem supply_conservation:
  "(process sg i s = Inr s' \<longrightarrow>
      total_amount s' k = total_amount s k \<and> readMint s' k = readMint s k)
   \<and> total_amount (run s ts) k = total_amount s k
   \<and> readMint (run s ts) k = readMint s k
   \<and> (supply_conserved s k \<longrightarrow> supply_conserved (run s ts) k)"
proof -
  have "same_books s s'" if "process sg i s = Inr s'"
    using that by (rule process_same)
  then show ?thesis
    using run_same[of s ts]
    by (auto simp: same_books_def supply_conserved_def split: sum.splits)
qed

theorem supply_conservation_witness:
  "supply_conserved sample_ledger 100
   \<and> supply_conserved (run sample_ledger sample_operations) 100
   \<and> total_amount (run sample_ledger sample_operations) 100 = 50
   \<and> (\<exists>s'. process [11] (Transfer 1 2 5) sample_ledger = Inr s' \<and> total_amount s' 100 = 50)
   \<and> map_option (\<lambda>sl. case contents sl of AccountData a \<Rightarrow> unat (amount a) | _ \<Rightarrow> 0)
        (map_of (run sample_ledger sample_operations) 2) = Some 25"
proof -
  have c: "supply_conserved sample_ledger 100"
    by (simp add: supply_conserved_def readMint_def sample_ledger_def total_amount_def
          account_amount_def)
  have t: "total_amount sample_ledger 100 = 50"
    by (simp add: sample_ledger_def total_amount_def account_amount_def)
  obtain s' where p: "process [11] (Transfer 1 2 5) sample_ledger = Inr s'"
    using process_sample by blast
  from supply_conservation[of "[11]" "Transfer 1 2 5" sample_ledger s' 100 sample_operations]
  have "total_amount s' 100 = total_amount sample_ledger 100"
    and "total_amount (run sample_ledger sample_operations) 100 = total_amount sample_ledger 100"
    and "supply_conserved (run sample_ledger sample_operations) 100"
    using p c by blast+
  with c t p run_sample show ?thesis by auto
qed

end
